theory Spec2Isabelle
  imports Complex_Main "HOL-Library.Multiset" "HOL-Library.AList"
begin

section \<open>Strings\<close>

text \<open>
  A JavaScript string is modelled as a \<^typ>\<open>string\<close> whose characters are the code units
  U+0000 to U+00FF (Latin-1). On this range \<open>String.prototype.toLowerCase\<close> maps
  A-Z and U+00C0..U+00DE (without the multiplication sign U+00D7) to the code unit 32
  higher and leaves every other code unit alone; the regular expression class \<open>\s\<close> and
  \<open>String.prototype.trim\<close> both take tab, line feed, vertical tab, form feed, carriage
  return, space and the no-break space U+00A0 as white space.
\<close>

definition toLowerCase_char :: "char \<Rightarrow> char" where
  "toLowerCase_char c =
     (let n = (of_char c :: nat)
      in if (65 \<le> n \<and> n \<le> 90) \<or> (192 \<le> n \<and> n \<le> 222 \<and> n \<noteq> 215)
         then char_of (n + 32) else c)"

definition toLowerCase :: "string \<Rightarrow> string" where
  "toLowerCase s = map toLowerCase_char s"

definition is_space :: "char \<Rightarrow> bool" where
  "is_space c = ((of_char c :: nat) \<in> {9, 10, 11, 12, 13, 32, 160})"

text \<open>\<open>s.trim()\<close>\<close>

definition trim :: "string \<Rightarrow> string" where
  "trim s = rev (dropWhile is_space (rev (dropWhile is_space s)))"

section \<open>Name normalizer\<close>

text \<open>\<open>.replace(/\s+/g, ' ')\<close>: every maximal run of white space becomes one space.\<close>

function collapse_whitespace :: "string \<Rightarrow> string" where
  "collapse_whitespace [] = []"
| "collapse_whitespace (c # cs) =
     (if is_space c then CHR '' '' # collapse_whitespace (dropWhile is_space cs)
      else c # collapse_whitespace cs)"
  by pat_completeness auto
termination
  by (relation "measure length") (auto simp: le_imp_less_Suc length_dropWhile_le)

text \<open>
  The character class of \<open>.replace(/[.,\/#!$%\^&\*;:{}=\-_`~()]/g, '')\<close>; the backquote is
  code unit 96.
\<close>

definition is_punctuation :: "char \<Rightarrow> bool" where
  "is_punctuation c = (c \<in> set ''.,/#!$%^&*;:{}=-_~()'' \<or> c = char_of (96 :: nat))"

definition strip_punctuation :: "string \<Rightarrow> string" where
  "strip_punctuation s = filter (\<lambda>c. \<not> is_punctuation c) s"

text \<open>
  \<open>.replace(/\s+inc$|\s+corp$|\s+llc$|\s+ltd$/i, '')\<close>. Without the \<open>g\<close> flag the first
  match is replaced, and \<open>$\<close> allows a match only at the end of the string, so the match
  is the suffix token together with the whole run of white space before it. The
  comparison ignores case (\<open>/i\<close>).
\<close>

definition corporate_suffixes :: "string list" where
  "corporate_suffixes = [''inc'', ''corp'', ''llc'', ''ltd'']"

definition ends_with_suffix :: "string \<Rightarrow> string \<Rightarrow> bool" where
  "ends_with_suffix s suf =
     (let r = rev s
      in length suf < length r
         \<and> toLowerCase (take (length suf) r) = rev suf
         \<and> is_space (r ! length suf))"

definition strip_corporate_suffix :: "string \<Rightarrow> string" where
  "strip_corporate_suffix s =
     (case find (ends_with_suffix s) corporate_suffixes of
        None \<Rightarrow> s
      | Some suf \<Rightarrow> rev (dropWhile is_space (drop (length suf) (rev s))))"

definition normalizeCompanyName :: "string \<Rightarrow> string" where
  "normalizeCompanyName company =
     trim (strip_corporate_suffix (strip_punctuation (collapse_whitespace (toLowerCase company))))"

text \<open>
  Two predicates on a normalized name: it holds two white-space characters in a row; it
  ends in a corporate-suffix token that the suffix pattern would match again.
\<close>

fun adjacent_spaces :: "string \<Rightarrow> bool" where
  "adjacent_spaces (a # b # cs) = ((is_space a \<and> is_space b) \<or> adjacent_spaces (b # cs))"
| "adjacent_spaces _ = False"

definition has_corporate_suffix :: "string \<Rightarrow> bool" where
  "has_corporate_suffix s = list_ex (ends_with_suffix s) corporate_suffixes"

section \<open>Numbers and dates\<close>

text \<open>
  JavaScript numbers are modelled exactly: integers as \<^typ>\<open>int\<close> or \<^typ>\<open>nat\<close>, quotients as
  \<^typ>\<open>rat\<close>. A timestamp (an ISO string that \<open>new Date(...)\<close> parses, or a \<open>Date\<close>) is
  the number of milliseconds since the epoch.
\<close>

text \<open>\<open>Math.round\<close>: the nearest integer, a tie going up.\<close>

definition Math_round :: "rat \<Rightarrow> int" where
  "Math_round x = \<lfloor>x + 1 / 2\<rfloor>"

definition daysDifference :: "int \<Rightarrow> int \<Rightarrow> int" where
  "daysDifference date1 date2 =
     (let diffTime = \<bar>date2 - date1\<bar>
      in \<lceil>(of_int diffTime :: rat) / (1000 * 60 * 60 * 24)\<rceil>)"

text \<open>The decimal numeral that a template literal prints for an integer.\<close>

fun decimal :: "nat \<Rightarrow> string" where
  "decimal n =
     (if n < 10 then [char_of (48 + n)] else decimal (n div 10) @ [char_of (48 + n mod 10)])"

declare decimal.simps [simp del]

definition Number_toString :: "int \<Rightarrow> string" where
  "Number_toString i = (if i < 0 then CHR ''-'' # decimal (nat (- i)) else decimal (nat i))"

section \<open>The history store and its collaborators\<close>

text \<open>An item of the job-patterns table, as \<open>detectCompanyPatterns\<close> writes it.\<close>

record posting =
  posting_id :: string
  companyName :: string
  jobTitle :: string
  location :: string
  jobDescription :: string
  firstSeen :: int
  lastSeen :: "int option"
  similarJobs :: "string list"
  userId :: string

record similar_job =
  sj_id :: string
  sj_jobTitle :: string
  similarity :: int
  sj_firstSeen :: int
  sj_lastSeen :: "int option"

record patterns =
  pat_companyName :: string
  recentPostings :: nat
  similarJobCount :: nat
  longestOpenDays :: int
  recycledDescriptions :: bool
  averagePostingFrequency :: int
  suspiciousPatterns :: "string list"
  confidenceScore :: int

text \<open>The body of the object stored in the bucket, and the value the call returns.\<close>

record report =
  rep_company :: string
  rep_patterns :: patterns
  rep_similarJobs :: "similar_job list"
  rep_timestamp :: int

record result =
  res_id :: string
  res_patterns :: patterns
  res_similarJobs :: "similar_job list"
  res_timestamp :: int

text \<open>The argument \<open>companyData\<close>; \<open>userId\<close> may be absent.\<close>

record companyData =
  company :: string
  cd_jobTitle :: string
  cd_location :: string
  cd_jobDescription :: string
  cd_userId :: "string option"

text \<open>
  A durable write, as the store's log records it: an item put into the table (by its
  id), or an object put into the bucket (its key is built from the normalized company
  name and the timestamp).
\<close>

datatype durable_write = TablePut string | ObjectPut "string \<times> int"

record store =
  table :: "posting list"
  bucket :: "((string \<times> int) \<times> report) list"
  writes :: "durable_write list"

datatype error = QueryFailed | PutFailed | PutObjectFailed | ScanFailed | TypeError

text \<open>
  What a call gets from outside: \<open>stringSimilarity.compareTwoStrings\<close> (a package that
  is not part of the repository), the identifier \<open>uuidv4()\<close> returns, the clock
  (\<open>clock e i\<close> is what \<open>new Date()\<close> reads while the loop is at the \<open>i\<close>-th stored posting,
  and \<open>clock e n\<close> after a loop over \<open>n\<close> postings), and whether each request to DynamoDB
  or S3 is rejected.
\<close>

record env =
  compareTwoStrings :: "string \<Rightarrow> string \<Rightarrow> rat"
  uuid :: string
  clock :: "nat \<Rightarrow> int"
  query_fails :: bool
  put_fails :: bool
  putObject_fails :: bool
  scan_fails :: bool

text \<open>
  \<open>getCompanyPostingHistory\<close>: the items whose \<open>companyName\<close> is the key, through the
  index \<open>CompanyNameIndex\<close>.
\<close>

definition getCompanyPostingHistory :: "env \<Rightarrow> store \<Rightarrow> string \<Rightarrow> error + posting list" where
  "getCompanyPostingHistory e st name =
     (if query_fails e then Inl QueryFailed
      else Inr (filter (\<lambda>p. companyName p = name) (table st)))"

text \<open>
  \<open>dynamoDb.put\<close>: the item replaces the item of the same id, if there is one. A rejected
  request writes nothing.
\<close>

definition dynamoDb_put :: "env \<Rightarrow> posting \<Rightarrow> store \<Rightarrow> error + store" where
  "dynamoDb_put e item st =
     (if put_fails e then Inl PutFailed
      else Inr (st\<lparr>table := filter (\<lambda>p. posting_id p \<noteq> posting_id item) (table st) @ [item],
                  writes := writes st @ [TablePut (posting_id item)]\<rparr>))"

definition s3_putObject :: "env \<Rightarrow> string \<times> int \<Rightarrow> report \<Rightarrow> store \<Rightarrow> error + store" where
  "s3_putObject e k body st =
     (if putObject_fails e then Inl PutObjectFailed
      else Inr (st\<lparr>bucket := AList.update k body (bucket st),
                  writes := writes st @ [ObjectPut k]\<rparr>))"

section \<open>Pattern aggregator and suspicion scorer\<close>

definition SIMILARITY_THRESHOLD :: rat where
  "SIMILARITY_THRESHOLD = 85 / 100"

definition SUSPICIOUS_REPOST_DAYS :: int where
  "SUSPICIOUS_REPOST_DAYS = 90"

text \<open>The sum of \<open>daysDifference\<close> over consecutive entries of the sorted history.\<close>

fun totalDays :: "int list \<Rightarrow> int" where
  "totalDays (a # b # ds) = daysDifference a b + totalDays (b # ds)"
| "totalDays _ = 0"

definition postingFrequency :: "posting list \<Rightarrow> int" where
  "postingFrequency companyHistory =
     (if length companyHistory > 1
      then let sortedByDate = sort_key firstSeen companyHistory
           in Math_round (of_int (totalDays (map firstSeen sortedByDate))
                            / of_nat (length companyHistory - 1))
      else 0)"

text \<open>
  The loop over the history: \<open>i\<close> is the position of the posting, \<open>sj\<close> the list
  \<open>similarJobs\<close> so far and \<open>longest\<close> the field \<open>longestOpenDays\<close> so far.
\<close>

fun scanHistory ::
  "env \<Rightarrow> string \<Rightarrow> nat \<Rightarrow> posting list \<Rightarrow> similar_job list \<times> int \<Rightarrow> similar_job list \<times> int"
where
  "scanHistory e description i [] (sj, longest) = (sj, longest)"
| "scanHistory e description i (p # ps) (sj, longest) =
     (let sim = compareTwoStrings e (toLowerCase description) (toLowerCase (jobDescription p));
          sj' = (if sim > SIMILARITY_THRESHOLD
                 then sj @ [\<lparr>sj_id = posting_id p, sj_jobTitle = jobTitle p,
                             similarity = Math_round (sim * 100),
                             sj_firstSeen = firstSeen p, sj_lastSeen = lastSeen p\<rparr>]
                 else sj);
          openDays = daysDifference (firstSeen p)
                       (case lastSeen p of Some l \<Rightarrow> l | None \<Rightarrow> clock e i);
          longest' = (if openDays > longest then openDays else longest)
      in scanHistory e description (Suc i) ps (sj', longest'))"

definition ruleLongOpen :: "patterns \<Rightarrow> patterns" where
  "ruleLongOpen p =
     (if longestOpenDays p > SUSPICIOUS_REPOST_DAYS
      then p\<lparr>suspiciousPatterns := suspiciousPatterns p
                 @ [''Position open for '' @ Number_toString (longestOpenDays p)
                      @ '' days without being filled''],
             confidenceScore := confidenceScore p - 2\<rparr>
      else p)"

definition ruleRecycled :: "patterns \<Rightarrow> patterns" where
  "ruleRecycled p =
     (if similarJobCount p > 3
      then p\<lparr>recycledDescriptions := True,
             suspiciousPatterns := suspiciousPatterns p
                 @ [''Multiple similar job postings ('' @ decimal (similarJobCount p)
                      @ '') detected''],
             confidenceScore := confidenceScore p - 2\<rparr>
      else p)"

definition ruleHighFrequency :: "patterns \<Rightarrow> patterns" where
  "ruleHighFrequency p =
     (if averagePostingFrequency p < 7 \<and> recentPostings p > 5
      then p\<lparr>suspiciousPatterns := suspiciousPatterns p
                 @ [''Unusually high frequency of new job postings''],
             confidenceScore := confidenceScore p - 1\<rparr>
      else p)"

text \<open>Lines 222 to 305: the summary and the list of similar jobs, from the history.\<close>

definition analyzePatterns ::
  "env \<Rightarrow> string \<Rightarrow> string \<Rightarrow> posting list \<Rightarrow> patterns \<times> similar_job list"
where
  "analyzePatterns e normalizedCompany description companyHistory =
     (let (similarJobs, longest) = scanHistory e description 0 companyHistory ([], 0);
          p = \<lparr>pat_companyName = normalizedCompany,
               recentPostings = length companyHistory,
               similarJobCount = length similarJobs,
               longestOpenDays = longest,
               recycledDescriptions = False,
               averagePostingFrequency = postingFrequency companyHistory,
               suspiciousPatterns = [],
               confidenceScore = 10\<rparr>
      in (ruleHighFrequency (ruleRecycled (ruleLongOpen p)), similarJobs))"

definition detectCompanyPatterns :: "env \<Rightarrow> store \<Rightarrow> companyData \<Rightarrow> (error + result) \<times> store" where
  "detectCompanyPatterns e st cd =
     (let normalizedCompany = normalizeCompanyName (company cd)
      in case getCompanyPostingHistory e st normalizedCompany of
           Inl err \<Rightarrow> (Inl err, st)
         | Inr companyHistory \<Rightarrow>
             (let (pats, similarJobs) =
                    analyzePatterns e normalizedCompany (cd_jobDescription cd) companyHistory;
                  jobId = uuid e;
                  timestamp = clock e (length companyHistory);
                  item = \<lparr>posting_id = jobId, companyName = normalizedCompany,
                          jobTitle = cd_jobTitle cd, location = cd_location cd,
                          jobDescription = cd_jobDescription cd,
                          firstSeen = timestamp, lastSeen = Some timestamp,
                          similarJobs = map sj_id similarJobs,
                          userId = (case cd_userId cd of
                                      None \<Rightarrow> ''anonymous''
                                    | Some u \<Rightarrow> if u = [] then ''anonymous'' else u)\<rparr>
              in case dynamoDb_put e item st of
                   Inl err \<Rightarrow> (Inl err, st)
                 | Inr st1 \<Rightarrow>
                     (case s3_putObject e (normalizedCompany, timestamp)
                             \<lparr>rep_company = normalizedCompany, rep_patterns = pats,
                              rep_similarJobs = similarJobs, rep_timestamp = timestamp\<rparr> st1 of
                        Inl err \<Rightarrow> (Inl err, st1)
                      | Inr st2 \<Rightarrow>
                          (Inr \<lparr>res_id = jobId, res_patterns = pats,
                                res_similarJobs = similarJobs, res_timestamp = timestamp\<rparr>,
                           st2))))"

section \<open>Notions the properties are stated with\<close>

text \<open>
  A character as the normalizer leaves it: in lower case, white space only as the
  space, and not in the punctuation class.
\<close>

definition clean_char :: "char \<Rightarrow> bool" where
  "clean_char c = (toLowerCase_char c = c \<and> (is_space c \<longrightarrow> c = CHR '' '') \<and> \<not> is_punctuation c)"

text \<open>
  The history the call reads, a stored posting whose description is above the
  threshold, and a call to which no request is rejected.
\<close>

definition companyHistory_of :: "store \<Rightarrow> companyData \<Rightarrow> posting list" where
  "companyHistory_of st cd =
     filter (\<lambda>p. companyName p = normalizeCompanyName (company cd)) (table st)"

definition is_similar :: "env \<Rightarrow> string \<Rightarrow> posting \<Rightarrow> bool" where
  "is_similar e description p =
     (compareTwoStrings e (toLowerCase description) (toLowerCase (jobDescription p))
        > SIMILARITY_THRESHOLD)"

definition no_failure :: "env \<Rightarrow> bool" where
  "no_failure e = (\<not> query_fails e \<and> \<not> put_fails e \<and> \<not> putObject_fails e)"

section \<open>Example data\<close>

definition day :: int where
  "day = 1000 * 60 * 60 * 24"

definition example_posting :: "string \<Rightarrow> int \<Rightarrow> int \<Rightarrow> posting" where
  "example_posting i f l =
     \<lparr>posting_id = i, companyName = ''acme'', jobTitle = ''Engineer'', location = ''Pune'',
      jobDescription = ''build things'', firstSeen = f, lastSeen = Some l,
      similarJobs = [], userId = ''anonymous''\<rparr>"

definition example_env :: "bool \<Rightarrow> bool \<Rightarrow> bool \<Rightarrow> env" where
  "example_env qf pf sf =
     \<lparr>compareTwoStrings = (\<lambda>a b. if a = b then 1 else 0), uuid = ''new'',
      clock = (\<lambda>i. 200 * day), query_fails = qf, put_fails = pf, putObject_fails = sf,
      scan_fails = False\<rparr>"

definition example_data :: companyData where
  "example_data =
     \<lparr>company = ''Acme, Inc.'', cd_jobTitle = ''Engineer'', cd_location = ''Pune'',
      cd_jobDescription = ''Build Things'', cd_userId = None\<rparr>"

definition example_store :: "string list \<Rightarrow> store" where
  "example_store ids =
     \<lparr>table = map (\<lambda>i. example_posting i 0 (100 * day)) ids, bucket = [], writes = []\<rparr>"

section \<open>Similarity engine\<close>






section \<open>Fleet aggregator\<close>

text \<open>
  An entry of \<open>companyMap\<close>; \<open>locations\<close> and \<open>titles\<close> are \<open>Set\<close> objects, kept as lists
  without repetition in insertion order. The objects the function returns add
  \<open>suspicionScore\<close>.
\<close>

record company_group =
  grp_companyName :: string
  postingCount :: nat
  similarPostingsCount :: nat
  locations :: "string list"
  titles :: "string list"

record company_entry = company_group +
  suspicionScore :: int

text \<open>\<open>set.add(x)\<close>\<close>

definition Set_add :: "string \<Rightarrow> string list \<Rightarrow> string list" where
  "Set_add x s = (if x \<in> set s then s else s @ [x])"

text \<open>
  \<open>set.length\<close>: a \<open>Set\<close> has no property \<open>length\<close> (its number of elements is \<open>size\<close>),
  so the read gives \<open>undefined\<close>, which arithmetic converts to \<open>NaN\<close>. \<open>NaN\<close> is \<open>None\<close>
  here.
\<close>

definition Set_length :: "string list \<Rightarrow> rat option" where
  "Set_length s = None"

text \<open>
  \<open>companyMap\<close> is created by \<open>{}\<close>, so a read of \<open>companyMap[name]\<close> for one of these
  names finds the property inherited from \<open>Object.prototype\<close>: the entry is not
  initialised, and \<open>companyMap[name].locations.add\<close> throws a \<open>TypeError\<close>.
\<close>

definition Object_prototype_keys :: "string list" where
  "Object_prototype_keys =
     [''constructor'', ''__defineGetter__'', ''__defineSetter__'', ''hasOwnProperty'',
      ''__lookupGetter__'', ''__lookupSetter__'', ''isPrototypeOf'', ''propertyIsEnumerable'',
      ''toString'', ''valueOf'', ''__proto__'', ''toLocaleString'']"

text \<open>The loop of lines 420 to 435 over the scanned items.\<close>

fun groupItems ::
  "posting list \<Rightarrow> (string \<times> company_group) list \<Rightarrow> error + (string \<times> company_group) list"
where
  "groupItems [] companyMap = Inr companyMap"
| "groupItems (item # items) companyMap =
     (if companyName item \<in> set Object_prototype_keys then Inl TypeError
      else
        let g = (case map_of companyMap (companyName item) of
                   None \<Rightarrow> \<lparr>grp_companyName = companyName item, postingCount = 0,
                             similarPostingsCount = 0, locations = [], titles = []\<rparr>
                 | Some g \<Rightarrow> g);
            g' = g\<lparr>postingCount := postingCount g + 1,
                   similarPostingsCount := similarPostingsCount g + length (similarJobs item),
                   locations := Set_add (location item) (locations g),
                   titles := Set_add (jobTitle item) (titles g)\<rparr>
        in groupItems items (AList.update (companyName item) g' companyMap))"

text \<open>
  \<open>Object.values\<close>: the values of the keys that are array indices (canonical decimal
  numerals below \<open>2^32 - 1\<close>) in ascending numeric order, then those of the other keys
  in insertion order.
\<close>

definition digit_value :: "char \<Rightarrow> int" where
  "digit_value c = of_char c - 48"

definition is_digit :: "char \<Rightarrow> bool" where
  "is_digit c = (48 \<le> (of_char c :: nat) \<and> (of_char c :: nat) \<le> 57)"

definition index_value :: "string \<Rightarrow> int" where
  "index_value k = foldl (\<lambda>a c. 10 * a + digit_value c) 0 k"

definition is_array_index :: "string \<Rightarrow> bool" where
  "is_array_index k =
     (k \<noteq> [] \<and> list_all is_digit k \<and> (length k = 1 \<or> hd k \<noteq> CHR ''0'')
      \<and> index_value k < 4294967295)"

definition Object_values :: "(string \<times> 'a) list \<Rightarrow> 'a list" where
  "Object_values m =
     map snd (sort_key (\<lambda>kv. index_value (fst kv)) (filter (\<lambda>kv. is_array_index (fst kv)) m)
              @ filter (\<lambda>kv. \<not> is_array_index (fst kv)) m)"

definition calculateSuspicionScore :: "company_group \<Rightarrow> int" where
  "calculateSuspicionScore c =
     (let score = 0 + min 10 (of_nat (similarPostingsCount c) / 2);
          titleRatio = (case Set_length (titles c) of
                          None \<Rightarrow> None
                        | Some l \<Rightarrow> Some (l / of_nat (postingCount c)));
          score' = (case titleRatio of
                      None \<Rightarrow> score
                    | Some t \<Rightarrow> if t < 1 / 2 \<and> postingCount c > 5
                                then score + (1 - t) * 5 else score)
      in Math_round score')"

text \<open>
  \<open>getSuspiciousCompanies\<close>. The scan is taken to return every item with more than
  three entries in \<open>similarJobs\<close>. \<open>Array.prototype.sort\<close> is stable.
\<close>

definition getSuspiciousCompanies :: "env \<Rightarrow> store \<Rightarrow> error + company_entry list" where
  "getSuspiciousCompanies e st =
     (if scan_fails e then Inl ScanFailed
      else case groupItems (filter (\<lambda>item. length (similarJobs item) > 3) (table st)) [] of
             Inl err \<Rightarrow> Inl err
           | Inr companyMap \<Rightarrow>
               Inr (sort_key (\<lambda>c. - suspicionScore c)
                      (map (\<lambda>g. \<lparr>grp_companyName = grp_companyName g,
                                  postingCount = postingCount g,
                                  similarPostingsCount = similarPostingsCount g,
                                  locations = locations g, titles = titles g,
                                  suspicionScore = calculateSuspicionScore g\<rparr>)
                         (Object_values companyMap))))"

text \<open>
  The score as the specification words it, from \<open>similarPostingsCount\<close>,
  \<open>postingCount\<close> and the number of distinct titles.
\<close>

definition spec_suspicionScore :: "nat \<Rightarrow> nat \<Rightarrow> nat \<Rightarrow> int" where
  "spec_suspicionScore similarPostings postings distinctTitles =
     (let titleRatio = (of_nat distinctTitles :: rat) / of_nat postings
      in Math_round (min 10 (of_nat similarPostings / 2)
                     + (if titleRatio < 1 / 2 \<and> postings > 5 then (1 - titleRatio) * 5 else 0)))"

text \<open>Six stored postings of one company with one title, each found similar to four others.\<close>

definition recycled_posting :: "string \<Rightarrow> string \<Rightarrow> string \<Rightarrow> posting" where
  "recycled_posting i c t =
     \<lparr>posting_id = i, companyName = c, jobTitle = t, location = ''Pune'',
      jobDescription = ''build things'', firstSeen = 0, lastSeen = Some 0,
      similarJobs = [''w'', ''x'', ''y'', ''z''], userId = ''anonymous''\<rparr>"

definition recycled_store :: store where
  "recycled_store =
     \<lparr>table = map (\<lambda>i. recycled_posting i ''acme'' ''Engineer'')
                 [''a'', ''b'', ''c'', ''d'', ''e'', ''f''],
      bucket = [], writes = []\<rparr>"

section \<open>Name normalizer: the three spellings\<close>

text \<open>
  C9. The spellings \<open>Acme, Inc.\<close>, \<open>acme inc\<close>, \<open>ACME   INC\<close> (three spaces),
  \<open>ACME INC\<close> and \<open>acme\<close> all normalize to the same key, \<open>acme\<close>.
\<close>

theorem normalize_acme_spellings:
  "normalizeCompanyName ''Acme, Inc.'' = ''acme''
   \<and> normalizeCompanyName ''acme inc'' = ''acme''
   \<and> normalizeCompanyName ''ACME   INC'' = ''acme''
   \<and> normalizeCompanyName ''ACME INC'' = ''acme''
   \<and> normalizeCompanyName ''acme'' = ''acme''"
  by code_simp

section \<open>Name normalizer: idempotence\<close>

lemma toLowerCase_char_idem: "toLowerCase_char (toLowerCase_char c) = toLowerCase_char c"
proof -
  have n: "(of_char c :: nat) < 256" by simp
  show ?thesis
    unfolding toLowerCase_char_def Let_def using n
    by (auto simp: of_char_of)
qed

lemma space_lower: "is_space c \<Longrightarrow> toLowerCase_char c = c"
  by (auto simp: is_space_def toLowerCase_char_def Let_def)

lemma collapse_set:
  "x \<in> set (collapse_whitespace s) \<Longrightarrow> (x \<in> set s \<and> \<not> is_space x) \<or> x = CHR '' ''"
proof (induction s arbitrary: x rule: collapse_whitespace.induct)
  case 1 then show ?case by simp
next
  case (2 c cs)
  then show ?case
    by (auto split: if_splits dest: set_dropWhileD)
qed

lemma is_space_blank: "is_space (CHR '' '')"
  by (simp add: is_space_def)

lemma set_strip_corporate_suffix: "set (strip_corporate_suffix s) \<subseteq> set s"
proof (cases "find (ends_with_suffix s) corporate_suffixes")
  case None
  then show ?thesis by (simp add: strip_corporate_suffix_def)
next
  case (Some suf)
  have "set (dropWhile is_space (drop (length suf) (rev s))) \<subseteq> set (rev s)"
    by (meson set_dropWhileD in_set_dropD subsetI)
  with Some show ?thesis by (simp add: strip_corporate_suffix_def)
qed

lemma set_trim: "set (trim s) \<subseteq> set s"
  unfolding trim_def by (auto dest!: set_dropWhileD)

lemma normalize_clean: "c \<in> set (normalizeCompanyName s) \<Longrightarrow> clean_char c"
proof -
  assume "c \<in> set (normalizeCompanyName s)"
  then have a: "c \<in> set (strip_punctuation (collapse_whitespace (toLowerCase s)))"
    unfolding normalizeCompanyName_def
    using set_trim set_strip_corporate_suffix by blast
  then have np: "\<not> is_punctuation c" and b: "c \<in> set (collapse_whitespace (toLowerCase s))"
    by (auto simp: strip_punctuation_def)
  from collapse_set [OF b] show ?thesis
  proof
    assume "c \<in> set (toLowerCase s) \<and> \<not> is_space c"
    then show ?thesis using np
      by (auto simp: clean_char_def toLowerCase_def toLowerCase_char_idem)
  next
    assume "c = CHR '' ''"
    then show ?thesis using np
      by (simp add: clean_char_def space_lower is_space_blank)
  qed
qed

lemma trim_ends:
  "trim s = [] \<or> (\<not> is_space (hd (trim s)) \<and> \<not> is_space (last (trim s)))"
proof (cases "trim s = []")
  case True then show ?thesis by simp
next
  case False
  define v where "v = dropWhile is_space s"
  define w where "w = dropWhile is_space (rev v)"
  have t: "trim s = rev w" by (simp add: trim_def v_def w_def)
  with False have wne: "w \<noteq> []" by simp
  then have "\<not> is_space (hd w)" unfolding w_def by (metis hd_dropWhile)
  then have l: "\<not> is_space (last (trim s))" using t wne by (simp add: last_rev)
  have "rev v = takeWhile is_space (rev v) @ w" by (simp add: w_def)
  then have "v = rev w @ rev (takeWhile is_space (rev v))"
    by (metis rev_append rev_rev_ident)
  then have hv: "hd v = hd (trim s)" and vne: "v \<noteq> []" using t False
    by (metis hd_append2, metis append_is_Nil_conv)
  from vne have "\<not> is_space (hd v)" unfolding v_def by (metis hd_dropWhile)
  with hv l show ?thesis by simp
qed

lemma trim_fixed:
  "s = [] \<or> (\<not> is_space (hd s) \<and> \<not> is_space (last s)) \<Longrightarrow> trim s = s"
proof (cases "s = []")
  case True then show ?thesis by (simp add: trim_def)
next
  case False
  assume "s = [] \<or> (\<not> is_space (hd s) \<and> \<not> is_space (last s))"
  with False have h: "\<not> is_space (hd s)" and l: "\<not> is_space (last s)" by auto
  from h False have 1: "dropWhile is_space s = s" by (cases s) auto
  from False obtain a as where r: "rev s = a # as" by (cases "rev s") auto
  with False have "a = last s" by (metis hd_rev list.sel(1))
  with l have "dropWhile is_space (a # as) = a # as" by simp
  then have 2: "dropWhile is_space (rev s) = rev s" by (simp only: r)
  show ?thesis by (simp add: trim_def 1 2)
qed

lemma collapse_fixed:
  "\<forall>c\<in>set s. is_space c \<longrightarrow> c = CHR '' '' \<Longrightarrow> \<not> adjacent_spaces s
   \<Longrightarrow> collapse_whitespace s = s"
proof (induction s rule: collapse_whitespace.induct)
  case 1 then show ?case by simp
next
  case (2 c cs)
  show ?case
  proof (cases "is_space c")
    case True
    with 2(3,4) have c: "c = CHR '' ''" and d: "dropWhile is_space cs = cs" and n: "\<not> adjacent_spaces cs"
      by (cases cs; auto)+
    from 2(1) [OF True] 2(3) n d have "collapse_whitespace cs = cs" by simp
    with True c d show ?thesis by simp
  next
    case False
    with 2(3,4) have n: "\<not> adjacent_spaces cs" by (cases cs) auto
    from 2(2) [OF False] 2(3) n have "collapse_whitespace cs = cs" by simp
    with False show ?thesis by simp
  qed
qed

lemma length_collapse: "length (collapse_whitespace s) \<le> length s"
proof (induction s rule: collapse_whitespace.induct)
  case 1 then show ?case by simp
next
  case (2 c cs)
  have "length (dropWhile is_space cs) \<le> length cs" by (rule length_dropWhile_le)
  with 2 show ?case by (auto simp: le_Suc_eq)
qed

lemma length_collapse_adjacent:
  "adjacent_spaces s \<Longrightarrow> length (collapse_whitespace s) < length s"
proof (induction s rule: collapse_whitespace.induct)
  case 1 then show ?case by simp
next
  case (2 c cs)
  show ?case
  proof (cases "is_space c")
    case True
    show ?thesis
    proof (cases cs)
      case Nil with 2(3) show ?thesis by simp
    next
      case (Cons b bs)
      show ?thesis
      proof (cases "is_space b")
        case sb: True
        have "length (dropWhile is_space bs) \<le> length bs" by (rule length_dropWhile_le)
        moreover have "length (collapse_whitespace (dropWhile is_space bs)) \<le> length (dropWhile is_space bs)"
          by (rule length_collapse)
        ultimately show ?thesis using True sb Cons by simp
      next
        case nb: False
        with 2(3) Cons have a: "adjacent_spaces cs" by simp
        from nb Cons have d: "dropWhile is_space cs = cs" by simp
        from 2(1) [OF True] a d have "length (collapse_whitespace cs) < length cs" by simp
        with True d show ?thesis by simp
      qed
    qed
  next
    case False
    with 2(3) have a: "adjacent_spaces cs" by (cases cs) auto
    from 2(2) [OF False a] False show ?thesis by simp
  qed
qed

lemma length_strip_corporate_suffix: "length (strip_corporate_suffix s) \<le> length s"
proof (cases "find (ends_with_suffix s) corporate_suffixes")
  case None
  then show ?thesis by (simp add: strip_corporate_suffix_def)
next
  case (Some suf)
  have "length (dropWhile is_space (drop (length suf) (rev s))) \<le> length (drop (length suf) (rev s))"
    by (rule length_dropWhile_le)
  with Some show ?thesis by (simp add: strip_corporate_suffix_def)
qed

lemma length_strip_corporate_suffix_less:
  assumes "has_corporate_suffix s"
  shows "length (strip_corporate_suffix s) < length s"
proof -
  from assms obtain suf where f: "find (ends_with_suffix s) corporate_suffixes = Some suf"
    unfolding has_corporate_suffix_def list_ex_iff
    by (metis find_None_iff not_Some_eq)
  then have "suf \<in> set corporate_suffixes" and e: "ends_with_suffix s suf"
    by (auto simp: find_Some_iff)
  then have pos: "0 < length suf" by (auto simp: corporate_suffixes_def)
  from e have lt: "length suf < length s" by (simp add: ends_with_suffix_def Let_def)
  have "length (dropWhile is_space (drop (length suf) (rev s))) \<le> length (drop (length suf) (rev s))"
    by (rule length_dropWhile_le)
  then have "length (dropWhile is_space (drop (length suf) (rev s))) \<le> length s - length suf"
    by simp
  with pos lt have "length (dropWhile is_space (drop (length suf) (rev s))) < length s" by arith
  with f show ?thesis by (simp add: strip_corporate_suffix_def)
qed

lemma strip_corporate_suffix_fixed:
  "\<not> has_corporate_suffix s \<Longrightarrow> strip_corporate_suffix s = s"
  unfolding has_corporate_suffix_def list_ex_iff strip_corporate_suffix_def
  by (auto simp: find_Some_iff split: option.splits)

lemma length_trim: "length (trim s) \<le> length s"
proof -
  have "length (dropWhile is_space (rev (dropWhile is_space s))) \<le> length (rev (dropWhile is_space s))"
    by (rule length_dropWhile_le)
  moreover have "length (dropWhile is_space s) \<le> length s" by (rule length_dropWhile_le)
  ultimately show ?thesis by (simp add: trim_def)
qed

lemma length_strip_punctuation: "length (strip_punctuation s) \<le> length s"
  by (simp add: strip_punctuation_def)

text \<open>
  C2, as amended. Normalizing a normalized name returns it unchanged exactly when the
  normalized name has no two white-space characters in a row and does not end in a
  corporate-suffix token after white space. (The punctuation step can leave two spaces
  side by side, and only one suffix token is stripped, before the final trim.)
\<close>

theorem normalize_idempotent_iff:
  "normalizeCompanyName (normalizeCompanyName s) = normalizeCompanyName s
   \<longleftrightarrow> \<not> adjacent_spaces (normalizeCompanyName s)
       \<and> \<not> has_corporate_suffix (normalizeCompanyName s)"
proof -
  define t where "t = normalizeCompanyName s"
  have clean: "\<forall>c\<in>set t. clean_char c"
    unfolding t_def using normalize_clean by blast
  have low: "toLowerCase t = t"
    unfolding toLowerCase_def using clean by (intro map_idI) (simp add: clean_char_def)
  have pun: "strip_punctuation t = t"
    unfolding strip_punctuation_def using clean by (simp add: clean_char_def)
  have ends: "t = [] \<or> (\<not> is_space (hd t) \<and> \<not> is_space (last t))"
    unfolding t_def normalizeCompanyName_def by (rule trim_ends)
  have sp: "\<forall>c\<in>set t. is_space c \<longrightarrow> c = CHR '' ''"
    using clean by (simp add: clean_char_def)
  have n: "normalizeCompanyName t
             = trim (strip_corporate_suffix (strip_punctuation (collapse_whitespace t)))"
    by (simp add: normalizeCompanyName_def low)
  have le: "length (normalizeCompanyName t) \<le> length (collapse_whitespace t)"
    unfolding n
    using length_trim [of "strip_corporate_suffix (strip_punctuation (collapse_whitespace t))"]
      length_strip_corporate_suffix [of "strip_punctuation (collapse_whitespace t)"]
      length_strip_punctuation [of "collapse_whitespace t"]
    by linarith
  have "normalizeCompanyName t = t
        \<longleftrightarrow> \<not> adjacent_spaces t \<and> \<not> has_corporate_suffix t"
  proof (cases "adjacent_spaces t")
    case True
    from length_collapse_adjacent [OF True] le have "length (normalizeCompanyName t) < length t"
      by linarith
    with True show ?thesis by auto
  next
    case False
    have col: "collapse_whitespace t = t" using sp False by (rule collapse_fixed)
    show ?thesis
    proof (cases "has_corporate_suffix t")
      case True
      from length_strip_corporate_suffix_less [OF True] length_trim [of "strip_corporate_suffix t"]
      have "length (normalizeCompanyName t) < length t"
        unfolding n col pun by linarith
      with True show ?thesis by auto
    next
      case nosuf: False
      have "normalizeCompanyName t = t"
        unfolding n col pun strip_corporate_suffix_fixed [OF nosuf] using ends by (rule trim_fixed)
      with False nosuf show ?thesis by simp
    qed
  qed
  then show ?thesis by (simp add: t_def)
qed

theorem normalize_idempotent_iff_witness:
  "normalizeCompanyName (normalizeCompanyName ''Acme, Inc.'') = normalizeCompanyName ''Acme, Inc.''
   \<and> \<not> adjacent_spaces (normalizeCompanyName ''Acme, Inc.'')
   \<and> \<not> has_corporate_suffix (normalizeCompanyName ''Acme, Inc.'')"
proof -
  have "\<not> adjacent_spaces (normalizeCompanyName ''Acme, Inc.'')" by code_simp
  moreover have "\<not> has_corporate_suffix (normalizeCompanyName ''Acme, Inc.'')" by code_simp
  ultimately show ?thesis using normalize_idempotent_iff [of "''Acme, Inc.''"] by simp
qed

text \<open>
  The claim as stated fails: \<open>acme inc inc\<close> normalizes to \<open>acme inc\<close>, which normalizes
  to \<open>acme\<close>.
\<close>

theorem normalize_not_idempotent:
  "normalizeCompanyName ''acme inc inc'' = ''acme inc''
   \<and> normalizeCompanyName (normalizeCompanyName ''acme inc inc'') = ''acme''
   \<and> normalizeCompanyName (normalizeCompanyName ''acme inc inc'')
       \<noteq> normalizeCompanyName ''acme inc inc''"
  by code_simp

section \<open>Pattern aggregator: what a call computes\<close>

lemma scanHistory_length:
  "length (fst (scanHistory e d i ps (sj, l))) = length sj + length (filter (is_similar e d) ps)"
  by (induction ps arbitrary: i sj l) (simp_all add: Let_def is_similar_def)

lemma scanHistory_ids:
  "map sj_id (fst (scanHistory e d i ps (sj, l)))
     = map sj_id sj @ map posting_id (filter (is_similar e d) ps)"
  by (induction ps arbitrary: i sj l) (simp_all add: Let_def is_similar_def)

lemma ruleLongOpen_fields:
  "recentPostings (ruleLongOpen p) = recentPostings p"
  "similarJobCount (ruleLongOpen p) = similarJobCount p"
  "longestOpenDays (ruleLongOpen p) = longestOpenDays p"
  "averagePostingFrequency (ruleLongOpen p) = averagePostingFrequency p"
  "recycledDescriptions (ruleLongOpen p) = recycledDescriptions p"
  "confidenceScore (ruleLongOpen p)
     = confidenceScore p - (if longestOpenDays p > SUSPICIOUS_REPOST_DAYS then 2 else 0)"
  "suspiciousPatterns (ruleLongOpen p)
     = suspiciousPatterns p
       @ (if longestOpenDays p > SUSPICIOUS_REPOST_DAYS
          then [''Position open for '' @ Number_toString (longestOpenDays p)
                  @ '' days without being filled''] else [])"
  by (simp_all add: ruleLongOpen_def)

lemma ruleRecycled_fields:
  "recentPostings (ruleRecycled p) = recentPostings p"
  "similarJobCount (ruleRecycled p) = similarJobCount p"
  "longestOpenDays (ruleRecycled p) = longestOpenDays p"
  "averagePostingFrequency (ruleRecycled p) = averagePostingFrequency p"
  "recycledDescriptions (ruleRecycled p) = (similarJobCount p > 3 \<or> recycledDescriptions p)"
  "confidenceScore (ruleRecycled p)
     = confidenceScore p - (if similarJobCount p > 3 then 2 else 0)"
  "suspiciousPatterns (ruleRecycled p)
     = suspiciousPatterns p
       @ (if similarJobCount p > 3
          then [''Multiple similar job postings ('' @ decimal (similarJobCount p)
                  @ '') detected''] else [])"
  by (simp_all add: ruleRecycled_def)

lemma ruleHighFrequency_fields:
  "recentPostings (ruleHighFrequency p) = recentPostings p"
  "similarJobCount (ruleHighFrequency p) = similarJobCount p"
  "longestOpenDays (ruleHighFrequency p) = longestOpenDays p"
  "averagePostingFrequency (ruleHighFrequency p) = averagePostingFrequency p"
  "recycledDescriptions (ruleHighFrequency p) = recycledDescriptions p"
  "confidenceScore (ruleHighFrequency p)
     = confidenceScore p - (if averagePostingFrequency p < 7 \<and> recentPostings p > 5 then 1 else 0)"
  "suspiciousPatterns (ruleHighFrequency p)
     = suspiciousPatterns p
       @ (if averagePostingFrequency p < 7 \<and> recentPostings p > 5
          then [''Unusually high frequency of new job postings''] else [])"
  by (simp_all add: ruleHighFrequency_def)

lemmas rule_fields = ruleLongOpen_fields ruleRecycled_fields ruleHighFrequency_fields

lemma analyzePatterns_eq:
  "analyzePatterns e n d h =
     (ruleHighFrequency (ruleRecycled (ruleLongOpen
        \<lparr>pat_companyName = n,
         recentPostings = length h,
         similarJobCount = length (filter (is_similar e d) h),
         longestOpenDays = snd (scanHistory e d 0 h ([], 0)),
         recycledDescriptions = False,
         averagePostingFrequency = postingFrequency h,
         suspiciousPatterns = [],
         confidenceScore = 10\<rparr>)),
      fst (scanHistory e d 0 h ([], 0)))"
proof (cases "scanHistory e d 0 h ([], 0)")
  case (Pair sj l)
  with scanHistory_length [of e d 0 h "[]" 0]
  have "length sj = length (filter (is_similar e d) h)" by simp
  with Pair show ?thesis by (simp add: analyzePatterns_def)
qed

lemma analyze_metrics:
  "recentPostings (fst (analyzePatterns e n d h)) = length h"
  "similarJobCount (fst (analyzePatterns e n d h)) = length (filter (is_similar e d) h)"
  "longestOpenDays (fst (analyzePatterns e n d h)) = snd (scanHistory e d 0 h ([], 0))"
  "averagePostingFrequency (fst (analyzePatterns e n d h)) = postingFrequency h"
  "recycledDescriptions (fst (analyzePatterns e n d h)) = (length (filter (is_similar e d) h) > 3)"
  by (simp_all add: analyzePatterns_eq rule_fields)

lemma analyze_score:
  "confidenceScore (fst (analyzePatterns e n d h))
     = 10 - (if snd (scanHistory e d 0 h ([], 0)) > SUSPICIOUS_REPOST_DAYS then 2 else 0)
          - (if length (filter (is_similar e d) h) > 3 then 2 else 0)
          - (if postingFrequency h < 7 \<and> length h > 5 then 1 else 0)"
  by (simp add: analyzePatterns_eq rule_fields)

lemma analyze_findings:
  "suspiciousPatterns (fst (analyzePatterns e n d h))
     = (if snd (scanHistory e d 0 h ([], 0)) > SUSPICIOUS_REPOST_DAYS
        then [''Position open for '' @ Number_toString (snd (scanHistory e d 0 h ([], 0)))
                @ '' days without being filled''] else [])
       @ (if length (filter (is_similar e d) h) > 3
          then [''Multiple similar job postings (''
                  @ decimal (length (filter (is_similar e d) h)) @ '') detected''] else [])
       @ (if postingFrequency h < 7 \<and> length h > 5
          then [''Unusually high frequency of new job postings''] else [])"
  by (simp add: analyzePatterns_eq rule_fields)

lemma detect_cases:
  "detectCompanyPatterns e st cd =
     (let n = normalizeCompanyName (company cd);
          h = companyHistory_of st cd;
          t = clock e (length h);
          a = analyzePatterns e n (cd_jobDescription cd) h;
          item = \<lparr>posting_id = uuid e, companyName = n,
                  jobTitle = cd_jobTitle cd, location = cd_location cd,
                  jobDescription = cd_jobDescription cd,
                  firstSeen = t, lastSeen = Some t,
                  similarJobs = map sj_id (snd a),
                  userId = (case cd_userId cd of
                              None \<Rightarrow> ''anonymous''
                            | Some u \<Rightarrow> if u = [] then ''anonymous'' else u)\<rparr>;
          st1 = st\<lparr>table := filter (\<lambda>p. posting_id p \<noteq> uuid e) (table st) @ [item],
                   writes := writes st @ [TablePut (uuid e)]\<rparr>
      in if query_fails e then (Inl QueryFailed, st)
         else if put_fails e then (Inl PutFailed, st)
         else if putObject_fails e then (Inl PutObjectFailed, st1)
         else (Inr \<lparr>res_id = uuid e, res_patterns = fst a, res_similarJobs = snd a,
                    res_timestamp = t\<rparr>,
               st1\<lparr>bucket := AList.update (n, t)
                        \<lparr>rep_company = n, rep_patterns = fst a, rep_similarJobs = snd a,
                         rep_timestamp = t\<rparr> (bucket st),
                    writes := writes st @ [TablePut (uuid e), ObjectPut (n, t)]\<rparr>))"
  by (simp add: detectCompanyPatterns_def getCompanyPostingHistory_def companyHistory_of_def
      dynamoDb_put_def s3_putObject_def Let_def split: prod.splits)

lemma detect_returns:
  "no_failure e \<Longrightarrow>
   detectCompanyPatterns e st cd =
     (Inr (projr (fst (detectCompanyPatterns e st cd))), snd (detectCompanyPatterns e st cd))
   \<and> res_patterns (projr (fst (detectCompanyPatterns e st cd)))
       = fst (analyzePatterns e (normalizeCompanyName (company cd)) (cd_jobDescription cd)
                (companyHistory_of st cd))"
  by (simp add: detect_cases no_failure_def Let_def)

lemma detect_Inr:
  assumes "detectCompanyPatterns e st cd = (Inr r, st')"
  shows "no_failure e"
    and "res_patterns r
       = fst (analyzePatterns e (normalizeCompanyName (company cd)) (cd_jobDescription cd)
                (companyHistory_of st cd))"
  using assms by (auto simp: detect_cases no_failure_def Let_def split: if_splits)

text \<open>
  C7. For a company with no stored posting, a call to which no request is rejected
  returns \<open>confidenceScore = 10\<close>, \<open>similarJobCount = 0\<close> and no finding.
\<close>

theorem zero_history:
  assumes "no_failure e" and "companyHistory_of st cd = []"
  shows "\<exists>r st'. detectCompanyPatterns e st cd = (Inr r, st')
           \<and> confidenceScore (res_patterns r) = 10
           \<and> similarJobCount (res_patterns r) = 0
           \<and> suspiciousPatterns (res_patterns r) = []"
proof -
  let ?r = "projr (fst (detectCompanyPatterns e st cd))"
  from detect_returns [OF assms(1), of st cd]
  have d: "detectCompanyPatterns e st cd = (Inr ?r, snd (detectCompanyPatterns e st cd))"
    and p: "res_patterns ?r
       = fst (analyzePatterns e (normalizeCompanyName (company cd)) (cd_jobDescription cd) [])"
    by (simp_all add: assms(2))
  have "confidenceScore (res_patterns ?r) = 10"
    by (simp add: p analyze_score SUSPICIOUS_REPOST_DAYS_def postingFrequency_def)
  moreover have "similarJobCount (res_patterns ?r) = 0"
    by (simp add: p analyze_metrics)
  moreover have "suspiciousPatterns (res_patterns ?r) = []"
    by (simp add: p analyze_findings SUSPICIOUS_REPOST_DAYS_def postingFrequency_def)
  ultimately show ?thesis using d by blast
qed

theorem zero_history_witness:
  "\<exists>r st'. detectCompanyPatterns (example_env False False False) (example_store []) example_data
              = (Inr r, st')
           \<and> confidenceScore (res_patterns r) = 10
           \<and> similarJobCount (res_patterns r) = 0
           \<and> suspiciousPatterns (res_patterns r) = []"
proof -
  have "no_failure (example_env False False False)"
    by (simp add: no_failure_def example_env_def)
  moreover have "companyHistory_of (example_store []) example_data = []"
    by (simp add: companyHistory_of_def example_store_def)
  ultimately show ?thesis by (rule zero_history)
qed

text \<open>
  C3, as amended. No floor is applied, but the three rules deduct at most 2 + 2 + 1:
  every score a call returns lies between 5 and 10.
\<close>

theorem confidenceScore_bounds:
  assumes "detectCompanyPatterns e st cd = (Inr r, st')"
  shows "5 \<le> confidenceScore (res_patterns r) \<and> confidenceScore (res_patterns r) \<le> 10"
  by (simp add: detect_Inr(2) [OF assms] analyze_score)

theorem confidenceScore_bounds_witness:
  "\<exists>r st'. detectCompanyPatterns (example_env False False False)
              (example_store [''a'', ''b'', ''c'', ''d'', ''e'', ''f'']) example_data = (Inr r, st')
           \<and> confidenceScore (res_patterns r) = 5
           \<and> 5 \<le> confidenceScore (res_patterns r) \<and> confidenceScore (res_patterns r) \<le> 10"
proof -
  let ?d = "detectCompanyPatterns (example_env False False False)
              (example_store [''a'', ''b'', ''c'', ''d'', ''e'', ''f'']) example_data"
  have "no_failure (example_env False False False)"
    by (simp add: no_failure_def example_env_def)
  from detect_returns [OF this]
  have d: "?d = (Inr (projr (fst ?d)), snd ?d)" by simp
  have "confidenceScore (res_patterns (projr (fst ?d))) = 5" by code_simp
  with d confidenceScore_bounds [OF d] show ?thesis by blast
qed

text \<open>The claim as stated fails: no call returns a score below 1.\<close>

theorem confidenceScore_below_floor_counterexample:
  "\<not> (\<exists>e st cd r st'. detectCompanyPatterns e st cd = (Inr r, st')
         \<and> confidenceScore (res_patterns r) < 1)"
proof
  assume "\<exists>e st cd r st'. detectCompanyPatterns e st cd = (Inr r, st')
         \<and> confidenceScore (res_patterns r) < 1"
  then obtain e st cd r st' where d: "detectCompanyPatterns e st cd = (Inr r, st')"
    and c: "confidenceScore (res_patterns r) < 1" by blast
  from detect_Inr(2) [OF d] have "5 \<le> confidenceScore (res_patterns r)"
    by (simp add: analyze_score)
  with c show False by simp
qed

section \<open>Pattern aggregator: recycled descriptions\<close>

text \<open>
  C8. If exactly four postings of the company's history have a description whose
  similarity to the new description is above the threshold 0.85, a call to which no
  request is rejected returns \<open>recycledDescriptions = true\<close> and \<open>similarJobCount = 4\<close>
  (four entries in \<open>similarJobs\<close>), the finding about four similar postings is among
  the findings, and the score is 10 less the 2 of this rule and less what the other
  two rules deduct.
\<close>

theorem four_similar_postings:
  assumes "no_failure e"
    and "length (filter (is_similar e (cd_jobDescription cd)) (companyHistory_of st cd)) = 4"
  shows "\<exists>r st'. detectCompanyPatterns e st cd = (Inr r, st')
           \<and> recycledDescriptions (res_patterns r)
           \<and> similarJobCount (res_patterns r) = 4
           \<and> length (res_similarJobs r) = 4
           \<and> ''Multiple similar job postings (4) detected'' \<in> set (suspiciousPatterns (res_patterns r))
           \<and> confidenceScore (res_patterns r)
               = 10 - (if longestOpenDays (res_patterns r) > 90 then 2 else 0)
                    - 2
                    - (if averagePostingFrequency (res_patterns r) < 7
                          \<and> recentPostings (res_patterns r) > 5 then 1 else 0)"
proof -
  let ?d = "detectCompanyPatterns e st cd"
  let ?r = "projr (fst ?d)"
  let ?n = "normalizeCompanyName (company cd)"
  let ?h = "companyHistory_of st cd"
  let ?a = "analyzePatterns e ?n (cd_jobDescription cd) ?h"
  from detect_returns [OF assms(1), of st cd]
  have d: "?d = (Inr ?r, snd ?d)" and p: "res_patterns ?r = fst ?a"
    by simp_all
  have s: "res_similarJobs ?r = snd ?a"
    using assms(1) by (simp add: detect_cases no_failure_def Let_def)
  have four: "decimal 4 = ''4''" by code_simp
  have 1: "recycledDescriptions (res_patterns ?r)"
    by (simp add: p analyze_metrics assms(2))
  have 2: "similarJobCount (res_patterns ?r) = 4"
    by (simp add: p analyze_metrics assms(2))
  have 3: "length (res_similarJobs ?r) = 4"
    using scanHistory_length [of e "cd_jobDescription cd" 0 ?h "[]" 0]
    by (simp add: s analyzePatterns_eq assms(2))
  have 4: "''Multiple similar job postings (4) detected'' \<in> set (suspiciousPatterns (res_patterns ?r))"
    by (simp add: p analyze_findings assms(2) four)
  have 5: "confidenceScore (res_patterns ?r)
               = 10 - (if longestOpenDays (res_patterns ?r) > 90 then 2 else 0)
                    - 2
                    - (if averagePostingFrequency (res_patterns ?r) < 7
                          \<and> recentPostings (res_patterns ?r) > 5 then 1 else 0)"
    by (simp add: p analyze_score analyze_metrics assms(2) SUSPICIOUS_REPOST_DAYS_def)
  from d 1 2 3 4 5 show ?thesis by blast
qed

theorem four_similar_postings_witness:
  "\<exists>r st'. detectCompanyPatterns (example_env False False False)
              (example_store [''a'', ''b'', ''c'', ''d'']) example_data = (Inr r, st')
           \<and> recycledDescriptions (res_patterns r)
           \<and> similarJobCount (res_patterns r) = 4
           \<and> length (res_similarJobs r) = 4
           \<and> ''Multiple similar job postings (4) detected'' \<in> set (suspiciousPatterns (res_patterns r))
           \<and> confidenceScore (res_patterns r)
               = 10 - (if longestOpenDays (res_patterns r) > 90 then 2 else 0)
                    - 2
                    - (if averagePostingFrequency (res_patterns r) < 7
                          \<and> recentPostings (res_patterns r) > 5 then 1 else 0)"
proof -
  have "no_failure (example_env False False False)"
    by (simp add: no_failure_def example_env_def)
  moreover have "length (filter (is_similar (example_env False False False)
                   (cd_jobDescription example_data))
                   (companyHistory_of (example_store [''a'', ''b'', ''c'', ''d'']) example_data)) = 4"
    by code_simp
  ultimately show ?thesis by (rule four_similar_postings)
qed

section \<open>Pattern aggregator: the posting count\<close>

text \<open>
  C10. \<open>recentPostings\<close> is the number of all stored records of the company, whatever
  their dates (no recency window), and the high-frequency finding is made exactly when
  the average posting frequency is below 7 and that lifetime count is above 5.
\<close>

theorem recentPostings_is_lifetime_count:
  assumes "no_failure e"
  shows "\<exists>r st'. detectCompanyPatterns e st cd = (Inr r, st')
           \<and> recentPostings (res_patterns r)
               = length (filter (\<lambda>p. companyName p = normalizeCompanyName (company cd)) (table st))
           \<and> (''Unusually high frequency of new job postings''
                  \<in> set (suspiciousPatterns (res_patterns r))
                \<longleftrightarrow> averagePostingFrequency (res_patterns r) < 7
                    \<and> length (filter (\<lambda>p. companyName p = normalizeCompanyName (company cd))
                               (table st)) > 5)"
proof -
  let ?d = "detectCompanyPatterns e st cd"
  let ?r = "projr (fst ?d)"
  let ?n = "normalizeCompanyName (company cd)"
  let ?h = "companyHistory_of st cd"
  let ?a = "analyzePatterns e ?n (cd_jobDescription cd) ?h"
  from detect_returns [OF assms(1), of st cd]
  have d: "?d = (Inr ?r, snd ?d)" and p: "res_patterns ?r = fst ?a"
    by simp_all
  have h: "length ?h = length (filter (\<lambda>p. companyName p = ?n) (table st))"
    by (simp add: companyHistory_of_def)
  have 1: "recentPostings (res_patterns ?r) = length (filter (\<lambda>p. companyName p = ?n) (table st))"
    by (simp add: p analyze_metrics h)
  have 2: "''Unusually high frequency of new job postings''
                  \<in> set (suspiciousPatterns (res_patterns ?r))
                \<longleftrightarrow> averagePostingFrequency (res_patterns ?r) < 7
                    \<and> length (filter (\<lambda>p. companyName p = ?n) (table st)) > 5"
    by (simp add: p analyze_findings analyze_metrics h [symmetric])
  from d 1 2 show ?thesis by blast
qed


text \<open>
  Six postings first seen at the epoch and last seen 100 days later, analysed 200 days
  after the epoch: all six count, and the finding is made.
\<close>

theorem recentPostings_witness:
  "\<exists>r st'. detectCompanyPatterns (example_env False False False)
              (example_store [''a'', ''b'', ''c'', ''d'', ''e'', ''f'']) example_data = (Inr r, st')
           \<and> recentPostings (res_patterns r) = 6
           \<and> ''Unusually high frequency of new job postings''
                  \<in> set (suspiciousPatterns (res_patterns r))"
proof -
  let ?st = "example_store [''a'', ''b'', ''c'', ''d'', ''e'', ''f'']"
  let ?d = "detectCompanyPatterns (example_env False False False) ?st example_data"
  have nf: "no_failure (example_env False False False)"
    by (simp add: no_failure_def example_env_def)
  have c: "length (filter (\<lambda>p. companyName p = normalizeCompanyName (company example_data))
             (table ?st)) = 6"
    by code_simp
  have a: "averagePostingFrequency (res_patterns (projr (fst ?d))) < 7" by code_simp
  from recentPostings_is_lifetime_count [OF nf, of ?st example_data]
  obtain r st' where d: "?d = (Inr r, st')"
    and 1: "recentPostings (res_patterns r)
              = length (filter (\<lambda>p. companyName p = normalizeCompanyName (company example_data))
                  (table ?st))"
    and 2: "''Unusually high frequency of new job postings''
                  \<in> set (suspiciousPatterns (res_patterns r))
                \<longleftrightarrow> averagePostingFrequency (res_patterns r) < 7
                    \<and> length (filter (\<lambda>p. companyName p
                                 = normalizeCompanyName (company example_data)) (table ?st)) > 5"
    by blast
  from d have r: "projr (fst ?d) = r" by simp
  from a have 3: "averagePostingFrequency (res_patterns r) < 7" unfolding r .
  from 1 have 4: "recentPostings (res_patterns r) = 6" unfolding c .
  from 2 3 have 5: "''Unusually high frequency of new job postings''
                  \<in> set (suspiciousPatterns (res_patterns r))" unfolding c by simp
  from d 4 5 show ?thesis by blast
qed


section \<open>Persistence\<close>

lemma detect_table:
  assumes "\<not> query_fails e" and "\<not> put_fails e"
  shows "\<exists>q. table (snd (detectCompanyPatterns e st cd))
               = filter (\<lambda>p. posting_id p \<noteq> uuid e) (table st) @ [q]
           \<and> posting_id q = uuid e
           \<and> companyName q = normalizeCompanyName (company cd)
           \<and> firstSeen q = clock e (length (companyHistory_of st cd))
           \<and> lastSeen q = Some (clock e (length (companyHistory_of st cd)))"
  using assms by (simp add: detect_cases Let_def)

lemma detect_new_visible:
  assumes "\<not> query_fails e" and "\<not> put_fails e"
  shows "\<exists>p \<in> set (companyHistory_of (snd (detectCompanyPatterns e st cd)) cd).
           posting_id p = uuid e"
proof -
  from detect_table [OF assms, of st cd] obtain q
    where t: "table (snd (detectCompanyPatterns e st cd))
               = filter (\<lambda>p. posting_id p \<noteq> uuid e) (table st) @ [q]"
      and q: "posting_id q = uuid e" "companyName q = normalizeCompanyName (company cd)"
    by blast
  have "q \<in> set (companyHistory_of (snd (detectCompanyPatterns e st cd)) cd)"
    unfolding companyHistory_of_def t using q(2) by simp
  with q(1) show ?thesis by blast
qed

lemma detect_putObject_fails:
  assumes "\<not> query_fails e" and "\<not> put_fails e" and "putObject_fails e"
  shows "fst (detectCompanyPatterns e st cd) = Inl PutObjectFailed"
    and "writes (snd (detectCompanyPatterns e st cd)) = writes st @ [TablePut (uuid e)]"
    and "bucket (snd (detectCompanyPatterns e st cd)) = bucket st"
  using assms by (simp_all add: detect_cases Let_def)

lemma detect_writes:
  assumes "no_failure e"
  shows "writes (snd (detectCompanyPatterns e st cd))
           = writes st @ [TablePut (uuid e),
               ObjectPut (normalizeCompanyName (company cd),
                 res_timestamp (projr (fst (detectCompanyPatterns e st cd))))]"
  using assms by (simp add: detect_cases no_failure_def Let_def)

text \<open>
  C1, as amended. A call makes two durable writes in this order: the posting into the
  table, then the report into the bucket. If the query or the put is rejected, the call
  fails and the store is unchanged. If the put of the report is rejected, the call
  fails and returns no summary, the bucket is unchanged, but the posting has been
  written and a later query for the company returns it. If nothing is rejected, the
  call returns its summary after both writes.
\<close>

theorem durable_writes:
  "(query_fails e \<longrightarrow> detectCompanyPatterns e st cd = (Inl QueryFailed, st))
   \<and> (\<not> query_fails e \<and> put_fails e \<longrightarrow> detectCompanyPatterns e st cd = (Inl PutFailed, st))
   \<and> (\<not> query_fails e \<and> \<not> put_fails e \<and> putObject_fails e \<longrightarrow>
        (\<exists>st'. detectCompanyPatterns e st cd = (Inl PutObjectFailed, st')
           \<and> writes st' = writes st @ [TablePut (uuid e)]
           \<and> bucket st' = bucket st
           \<and> (\<exists>p \<in> set (companyHistory_of st' cd). posting_id p = uuid e)))
   \<and> (no_failure e \<longrightarrow>
        (\<exists>r st'. detectCompanyPatterns e st cd = (Inr r, st')
           \<and> writes st' = writes st @ [TablePut (uuid e),
                 ObjectPut (normalizeCompanyName (company cd), res_timestamp r)]
           \<and> (\<exists>p \<in> set (companyHistory_of st' cd). posting_id p = uuid e)))"
proof (intro conjI impI)
  assume "query_fails e"
  then show "detectCompanyPatterns e st cd = (Inl QueryFailed, st)"
    by (simp add: detect_cases Let_def)
next
  assume "\<not> query_fails e \<and> put_fails e"
  then show "detectCompanyPatterns e st cd = (Inl PutFailed, st)"
    by (simp add: detect_cases Let_def)
next
  let ?d = "detectCompanyPatterns e st cd"
  assume a: "\<not> query_fails e \<and> \<not> put_fails e \<and> putObject_fails e"
  then have f: "\<not> query_fails e" "\<not> put_fails e" "putObject_fails e" by simp_all
  have "?d = (Inl PutObjectFailed, snd ?d)"
    using detect_putObject_fails(1) [OF f, of st cd] by (simp add: prod_eq_iff)
  with detect_putObject_fails(2,3) [OF f, of st cd] detect_new_visible [OF f(1,2), of st cd]
  show "\<exists>st'. ?d = (Inl PutObjectFailed, st')
           \<and> writes st' = writes st @ [TablePut (uuid e)]
           \<and> bucket st' = bucket st
           \<and> (\<exists>p \<in> set (companyHistory_of st' cd). posting_id p = uuid e)"
    by blast
next
  let ?d = "detectCompanyPatterns e st cd"
  assume nf: "no_failure e"
  then have f: "\<not> query_fails e" "\<not> put_fails e" by (simp_all add: no_failure_def)
  from detect_returns [OF nf, of st cd] have "?d = (Inr (projr (fst ?d)), snd ?d)" by simp
  with detect_writes [OF nf, of st cd] detect_new_visible [OF f, of st cd]
  show "\<exists>r st'. ?d = (Inr r, st')
           \<and> writes st' = writes st @ [TablePut (uuid e),
                 ObjectPut (normalizeCompanyName (company cd), res_timestamp r)]
           \<and> (\<exists>p \<in> set (companyHistory_of st' cd). posting_id p = uuid e)"
    by blast
qed

theorem durable_writes_witness:
  "detectCompanyPatterns (example_env True False False) (example_store []) example_data
     = (Inl QueryFailed, example_store [])
   \<and> detectCompanyPatterns (example_env False True False) (example_store []) example_data
     = (Inl PutFailed, example_store [])
   \<and> (\<exists>st'. detectCompanyPatterns (example_env False False True) (example_store []) example_data
              = (Inl PutObjectFailed, st')
           \<and> writes st' = [TablePut ''new'']
           \<and> bucket st' = []
           \<and> (\<exists>p \<in> set (companyHistory_of st' example_data). posting_id p = ''new''))
   \<and> (\<exists>r st'. detectCompanyPatterns (example_env False False False) (example_store []) example_data
              = (Inr r, st')
           \<and> writes st' = [TablePut ''new'', ObjectPut (''acme'', res_timestamp r)]
           \<and> (\<exists>p \<in> set (companyHistory_of st' example_data). posting_id p = ''new''))"
proof -
  have n: "normalizeCompanyName (company example_data) = ''acme''" by code_simp
  show ?thesis
    using durable_writes [of "example_env True False False" "example_store []" example_data]
      durable_writes [of "example_env False True False" "example_store []" example_data]
      durable_writes [of "example_env False False True" "example_store []" example_data]
      durable_writes [of "example_env False False False" "example_store []" example_data]
    by (simp add: example_env_def no_failure_def example_store_def n)
qed

text \<open>
  The claim as stated fails: with the put of the report rejected the call fails, yet
  a query for the company, empty before, returns the new posting afterwards; and a
  call that succeeds has made two durable writes, not one.
\<close>

theorem not_atomic_counterexample:
  "fst (detectCompanyPatterns (example_env False False True) (example_store []) example_data)
     = Inl PutObjectFailed
   \<and> companyHistory_of (example_store []) example_data = []
   \<and> map posting_id (companyHistory_of
        (snd (detectCompanyPatterns (example_env False False True) (example_store []) example_data))
        example_data) = [''new'']
   \<and> writes (snd (detectCompanyPatterns (example_env False False False) (example_store [])
        example_data)) = [TablePut ''new'', ObjectPut (''acme'', 200 * day)]"
  by code_simp

text \<open>
  C4, as amended. A call never updates a stored record: after a call to which no
  request is rejected, the table holds the records it held (those with another id than
  the new one), each with every field unchanged, \<open>firstSeen\<close> and \<open>lastSeen\<close> included,
  followed by one new record whose \<open>firstSeen\<close> and \<open>lastSeen\<close> are both the time of
  the call.
\<close>

theorem stored_records_never_updated:
  assumes "no_failure e"
  shows "\<exists>r st' q. detectCompanyPatterns e st cd = (Inr r, st')
           \<and> table st' = filter (\<lambda>p. posting_id p \<noteq> uuid e) (table st) @ [q]
           \<and> posting_id q = uuid e
           \<and> firstSeen q = res_timestamp r
           \<and> lastSeen q = Some (res_timestamp r)"
  using assms by (simp add: detect_cases no_failure_def Let_def)

theorem stored_records_never_updated_witness:
  "\<exists>r st' q. detectCompanyPatterns (example_env False False False) (example_store [''a''])
                example_data = (Inr r, st')
           \<and> table st' = table (example_store [''a'']) @ [q]
           \<and> posting_id q = ''new''
           \<and> firstSeen q = res_timestamp r
           \<and> lastSeen q = Some (res_timestamp r)"
proof -
  have "no_failure (example_env False False False)"
    by (simp add: no_failure_def example_env_def)
  from stored_records_never_updated [OF this, of "example_store [''a'']" example_data]
  show ?thesis
    by (simp add: example_env_def example_store_def example_posting_def)
qed

text \<open>
  The claim as stated fails: the stored posting \<open>a\<close>, last seen on day 100, is found
  similar to the posting analysed on day 200, and its \<open>lastSeen\<close> is still day 100
  afterwards.
\<close>

theorem lastSeen_not_updated_counterexample:
  "map sj_id (res_similarJobs (projr (fst (detectCompanyPatterns (example_env False False False)
      (example_store [''a'']) example_data)))) = [''a'']
   \<and> res_timestamp (projr (fst (detectCompanyPatterns (example_env False False False)
      (example_store [''a'']) example_data))) = 200 * day
   \<and> map (\<lambda>p. (posting_id p, firstSeen p, lastSeen p))
        (table (snd (detectCompanyPatterns (example_env False False False)
           (example_store [''a'']) example_data)))
      = [(''a'', 0, Some (100 * day)), (''new'', 200 * day, Some (200 * day))]"
  by code_simp

section \<open>Similarity engine: the contract\<close>













section \<open>Fleet aggregator: the suspicion score\<close>

lemma calculateSuspicionScore_no_bonus:
  "calculateSuspicionScore c = Math_round (min 10 (of_nat (similarPostingsCount c) / 2))"
  by (simp add: calculateSuspicionScore_def Set_length_def)

text \<open>
  C5. The score is specified as the rounded sum of \<open>min(10, similarPostingsCount / 2)\<close>
  and a bonus \<open>(1 - titleRatio) * 5\<close> when \<open>titleRatio < 0.5\<close> and \<open>postingCount > 5\<close>. For
  six postings of one company with a single title, each with four similar jobs, that
  is 14; the function returns one entry for the company, with \<open>postingCount = 6\<close>,
  \<open>similarPostingsCount = 24\<close> and the score 10: the bonus is never added, since the
  ratio is computed from \<open>titles.length\<close> of a \<open>Set\<close>.
\<close>

theorem suspicionScore_title_bonus_never_applied:
  "getSuspiciousCompanies (example_env False False False) recycled_store
     = Inr [\<lparr>grp_companyName = ''acme'', postingCount = 6, similarPostingsCount = 24,
              locations = [''Pune''], titles = [''Engineer''], suspicionScore = 10\<rparr>]
   \<and> spec_suspicionScore 24 6 1 = 14"
  by code_simp

end
